theory Spec2Isabelle
  imports Main "HOL-Library.AList"
begin

section \<open>Values\<close>

text \<open>
  A \<open>string\<close> is a Python \<open>str\<close> whose characters are code points below 256.
\<close>

text \<open>
  JSON values as Python's \<open>json\<close> module decodes them and as \<open>requests\<close> encodes them.
  An object is an association list in insertion order, as a Python dict is. A number
  that is not an integer is kept as its literal: no function here computes with it.
\<close>

datatype json =
    JNull
  | JBool bool
  | JInt int
  | JFloat string
  | JString string
  | JArray "json list"
  | JObject "(string \<times> json) list"

text \<open>The value of a query parameter: a \<open>str\<close> or an \<open>int\<close>.\<close>

datatype param = PStr string | PInt int

text \<open>
  The exceptions a call can fail with: the instances of Python's \<open>Exception\<close>, split
  by the class the two handlers of \<open>_make_request\<close> tell apart. The argument is
  \<open>str(e)\<close>. \<open>KeyboardInterrupt\<close> and \<open>SystemExit\<close> ask the process to stop; they
  are not failures of a call and are outside this model.
\<close>

datatype py_exception =
    RequestException string  \<comment> \<open>\<open>requests.exceptions.RequestException\<close> and its subclasses\<close>
  | OtherException string    \<comment> \<open>every other subclass of \<open>Exception\<close>\<close>

text \<open>
  Standard output: what \<open>print(text)\<close> does. \<open>None\<close> when it returns, \<open>Some e\<close>
  when it raises \<open>e\<close>, as it does for a text the encoding of the stream cannot
  encode (\<open>UnicodeEncodeError\<close>) or on a broken pipe.
\<close>

type_synonym console = "string \<Rightarrow> py_exception option"

section \<open>Configuration and process state\<close>

text \<open>\<open>os.environ\<close>.\<close>

type_synonym environ = "string \<rightharpoonup> string"

definition environ_get :: "environ \<Rightarrow> string \<Rightarrow> string \<Rightarrow> string" where
  "environ_get env k d = (case env k of None \<Rightarrow> d | Some v \<Rightarrow> v)"

text \<open>\<open>server.py\<close>, the dataclass \<open>AppContext\<close>.\<close>

record AppContext =
  youtrack_url :: string
  youtrack_token :: string
  read_only :: bool

text \<open>
  \<open>str.lower\<close> on the letters \<open>A\<close> to \<open>Z\<close>; every other byte is kept. The result
  is only ever compared with \<open>true\<close>, and no character outside \<open>A\<close> to \<open>Z\<close> is
  lowered to one of its letters.
\<close>

definition lower_char :: "char \<Rightarrow> char" where
  "lower_char c =
     (case map_of (zip ''ABCDEFGHIJKLMNOPQRSTUVWXYZ'' ''abcdefghijklmnopqrstuvwxyz'') c of
        Some l \<Rightarrow> l
      | None \<Rightarrow> c)"

definition lower :: "string \<Rightarrow> string" where
  "lower s = map lower_char s"

text \<open>\<open>server.py\<close>, \<open>app_lifespan\<close>: the context it yields.\<close>

definition app_lifespan :: "environ \<Rightarrow> AppContext" where
  "app_lifespan env =
     \<lparr> youtrack_url = environ_get env ''YOUTRACK_URL'' '''',
       youtrack_token = environ_get env ''YOUTRACK_TOKEN'' '''',
       read_only = (lower (environ_get env ''YOUTRACK_READ_ONLY'' ''false'') = ''true'') \<rparr>"

text \<open>
  The namespace \<open>argparse\<close> returns, and \<open>parse_arguments\<close>: each argument that is
  given is written into the environment.
\<close>

record cli_args =
  arg_read_only :: bool
  arg_youtrack_url :: "string option"
  arg_youtrack_token :: "string option"

definition truthy :: "string option \<Rightarrow> bool" where
  "truthy s = (case s of None \<Rightarrow> False | Some v \<Rightarrow> v \<noteq> [])"

definition parse_arguments :: "cli_args \<Rightarrow> environ \<Rightarrow> environ" where
  "parse_arguments args env =
     (let env1 = (if truthy (arg_youtrack_url args)
                  then env(''YOUTRACK_URL'' \<mapsto> the (arg_youtrack_url args)) else env);
          env2 = (if truthy (arg_youtrack_token args)
                  then env1(''YOUTRACK_TOKEN'' \<mapsto> the (arg_youtrack_token args)) else env1);
          env3 = (if arg_read_only args
                  then env2(''YOUTRACK_READ_ONLY'' \<mapsto> ''true'') else env2)
      in env3)"

text \<open>
  Everything a tool call can read or write to: the environment, the two globals of
  \<open>youtrack_api.py\<close> (set when the module is imported), the lifespan context and
  standard output. \<open>dict_str\<close> is Python's \<open>str\<close> of a dict, a built-in of the
  interpreter that is taken as given.
\<close>

record process =
  environ :: environ
  YOUTRACK_URL :: string
  YOUTRACK_TOKEN :: string
  app_context :: AppContext
  stdout :: console
  dict_str :: "(string \<times> json) list \<Rightarrow> string"

text \<open>
  Start of the process, from the environment as it is after \<open>load_dotenv\<close>:
  \<open>youtrack_api\<close> is imported (line 50 of \<open>server.py\<close>) before \<open>parse_arguments\<close>
  runs, and the lifespan context is built after it.
\<close>

definition startup ::
  "environ \<Rightarrow> cli_args \<Rightarrow> console \<Rightarrow> ((string \<times> json) list \<Rightarrow> string) \<Rightarrow> process" where
  "startup env args out str_of_dict =
     (let url = environ_get env ''YOUTRACK_URL'' ''YOUR_YOUTRACK_INSTANCE_URL'';
          token = environ_get env ''YOUTRACK_TOKEN'' ''YOUR_YOUTRACK_TOKEN'';
          env' = parse_arguments args env
      in \<lparr> environ = env', YOUTRACK_URL = url, YOUTRACK_TOKEN = token,
           app_context = app_lifespan env', stdout = out, dict_str = str_of_dict \<rparr>)"

definition HEADERS :: "process \<Rightarrow> (string \<times> string) list" where
  "HEADERS p =
     [(''Authorization'', ''Bearer '' @ YOUTRACK_TOKEN p),
      (''Accept'', ''application/json''),
      (''Content-Type'', ''application/json'')]"

section \<open>The HTTP call\<close>

text \<open>The arguments of \<open>requests.request\<close>.\<close>

record request =
  req_method :: string
  req_url :: string
  req_headers :: "(string \<times> string) list"
  req_params :: "(string \<times> param) list option"
  req_json :: "json option"

text \<open>
  What \<open>_make_request\<close> observes of a \<open>requests.Response\<close>: the status code, the
  text of the \<open>HTTPError\<close> that \<open>raise_for_status\<close> builds from status, reason and
  URL, and what \<open>response.json()\<close> does: it returns the decoded body or raises.
\<close>

record response =
  status_code :: int
  http_error_msg :: string
  json_result :: "py_exception + json"

datatype outcome = Responded response | Raised py_exception

text \<open>The network and the backend: what \<open>requests.request\<close> does with a request.\<close>

type_synonym transport = "request \<Rightarrow> outcome"

text \<open>
  \<open>Response.raise_for_status\<close> of the \<open>requests\<close> library: an \<open>HTTPError\<close>, a
  \<open>RequestException\<close>, for a status from 400 to 599.
\<close>

definition raise_for_status :: "response \<Rightarrow> py_exception + unit" where
  "raise_for_status r =
     (if 400 \<le> status_code r \<and> status_code r < 600
      then Inl (RequestException (http_error_msg r)) else Inr ())"

text \<open>The body of the \<open>try\<close> of \<open>_make_request\<close>, lines 118 to 123.\<close>

definition try_body :: "transport \<Rightarrow> request \<Rightarrow> py_exception + json" where
  "try_body http req =
     (case http req of
        Raised e \<Rightarrow> Inl e
      | Responded r \<Rightarrow>
          (case raise_for_status r of
             Inl e \<Rightarrow> Inl e
           | Inr _ \<Rightarrow>
               if status_code r = 204 then Inr (JObject [])
               else json_result r))"

text \<open>
  \<open>_make_request\<close>. The result is the list of calls made to \<open>requests.request\<close>
  and what the function does: \<open>Inr\<close> a returned value, \<open>Inl\<close> an exception that
  leaves the function. Each handler prints before it returns (lines 125 and 129); an
  exception raised inside a handler is not caught by the other one and leaves the
  function.
\<close>

definition make_request ::
  "process \<Rightarrow> transport \<Rightarrow> string \<Rightarrow> string \<Rightarrow> (string \<times> param) list option \<Rightarrow>
   json option \<Rightarrow> request list \<times> (py_exception + json)" where
  "make_request p http method endpoint params json_data =
     (let url = YOUTRACK_URL p @ ''/api/'' @ endpoint;
          req = \<lparr> req_method = method, req_url = url, req_headers = HEADERS p,
                  req_params = params, req_json = json_data \<rparr>
      in ([req],
          (case try_body http req of
             Inr v \<Rightarrow> Inr v
           | Inl (RequestException e) \<Rightarrow>
               (case stdout p (''Error making request to '' @ url @ '': '' @ e) of
                  Some x \<Rightarrow> Inl x
                | None \<Rightarrow> Inr (JObject [(''error'', JString e)]))
           | Inl (OtherException e) \<Rightarrow>
               (case stdout p (''An unexpected error occurred: '' @ e) of
                  Some x \<Rightarrow> Inl x
                | None \<Rightarrow>
                    Inr (JObject [(''error'', JString ''An unexpected error occurred'')])))))"

section \<open>Operation functions\<close>

text \<open>
  A parameter with a default is an \<open>option\<close>: \<open>None\<close> when the caller leaves it out.
\<close>

definition or_default :: "'a \<Rightarrow> 'a option \<Rightarrow> 'a" where
  "or_default d x = (case x of None \<Rightarrow> d | Some v \<Rightarrow> v)"

text \<open>
  The line each operation prints before it calls \<open>_make_request\<close> (lines 44, 67, 89
  and 109). The print is outside any \<open>try\<close>: when it raises, the exception leaves the
  operation and no request is sent.
\<close>

definition search_issues_line :: "string \<Rightarrow> string" where
  "search_issues_line query =
     ''Searching YouTrack issues with query: '' @ [CHR 0x27] @ query @ [CHR 0x27] @ ''...''"

definition get_issue_line :: "string \<Rightarrow> string" where
  "get_issue_line issue_id = ''Getting details for YouTrack issue: '' @ issue_id @ ''...''"

definition update_issue_line :: "process \<Rightarrow> string \<Rightarrow> (string \<times> json) list \<Rightarrow> string" where
  "update_issue_line p issue_id data =
     ''Updating YouTrack issue '' @ issue_id @ '' with data: '' @ dict_str p data @ ''...''"

definition add_comment_line :: "string \<Rightarrow> string \<Rightarrow> string" where
  "add_comment_line issue_id comment_text =
     ''Adding comment to YouTrack issue '' @ issue_id @ '': '' @ [CHR 0x27]
       @ take 50 comment_text @ ''...'' @ [CHR 0x27]"

text \<open>
  \<open>search_issues\<close>. At line 42 \<open>params["fields"]\<close> holds \<open>fields\<close>, so the
  \<open>+=\<close> stores \<open>fields + "," + custom_fields\<close> under the same key.
\<close>

definition search_issues ::
  "process \<Rightarrow> transport \<Rightarrow> string \<Rightarrow> string option \<Rightarrow> string option \<Rightarrow> int option \<Rightarrow>
   int option \<Rightarrow> request list \<times> (py_exception + json)" where
  "search_issues p http query fields_arg custom_fields top_arg skip_arg =
     (let fields = or_default ''idReadable,summary,project(shortName)'' fields_arg;
          top = or_default 100 top_arg;
          skip = or_default 0 skip_arg;
          endpoint = ''issues'';
          params = [(''query'', PStr query),
                    (''fields'', PStr fields),
                    (''$top'', PInt top),
                    (''$skip'', PInt skip)];
          params' = (if truthy custom_fields
                     then AList.update ''fields''
                            (PStr (fields @ '','' @ the custom_fields)) params
                     else params)
      in case stdout p (search_issues_line query) of
           Some x \<Rightarrow> ([], Inl x)
         | None \<Rightarrow> make_request p http ''GET'' endpoint (Some params') None)"

definition get_issue ::
  "process \<Rightarrow> transport \<Rightarrow> string \<Rightarrow> string option \<Rightarrow> string option \<Rightarrow>
   request list \<times> (py_exception + json)" where
  "get_issue p http issue_id fields_arg custom_fields =
     (let fields = or_default ''idReadable,summary,description,project(shortName),customFields(projectCustomField(field(name)),value(name,login,fullName,text))'' fields_arg;
          endpoint = ''issues/'' @ issue_id;
          params = [(''fields'', PStr fields)];
          params' = (if truthy custom_fields
                     then AList.update ''fields''
                            (PStr (fields @ '','' @ the custom_fields)) params
                     else params)
      in case stdout p (get_issue_line issue_id) of
           Some x \<Rightarrow> ([], Inl x)
         | None \<Rightarrow> make_request p http ''GET'' endpoint (Some params') None)"

definition update_issue ::
  "process \<Rightarrow> transport \<Rightarrow> string \<Rightarrow> (string \<times> json) list \<Rightarrow> string option \<Rightarrow>
   request list \<times> (py_exception + json)" where
  "update_issue p http issue_id data fields_arg =
     (let fields = or_default ''idReadable,summary'' fields_arg;
          endpoint = ''issues/'' @ issue_id;
          params = [(''fields'', PStr fields)]
      in case stdout p (update_issue_line p issue_id data) of
           Some x \<Rightarrow> ([], Inl x)
         | None \<Rightarrow> make_request p http ''POST'' endpoint (Some params) (Some (JObject data)))"

definition add_comment ::
  "process \<Rightarrow> transport \<Rightarrow> string \<Rightarrow> string \<Rightarrow> string option \<Rightarrow>
   request list \<times> (py_exception + json)" where
  "add_comment p http issue_id comment_text fields_arg =
     (let fields = or_default ''id,text,author(login)'' fields_arg;
          endpoint = ''issues/'' @ issue_id @ ''/comments'';
          params = [(''fields'', PStr fields)];
          json_data = JObject [(''text'', JString comment_text)]
      in case stdout p (add_comment_line issue_id comment_text) of
           Some x \<Rightarrow> ([], Inl x)
         | None \<Rightarrow> make_request p http ''POST'' endpoint (Some params) (Some json_data))"

section \<open>Tool registration facade\<close>

text \<open>
  The four tools of \<open>server.py\<close>. Each has its own defaults and passes every
  argument on by position. The \<open>logger.info\<close> line of each is left out: the
  handlers of \<open>logging\<close> catch what goes wrong while a record is written.
\<close>

definition youtrack_search_issues ::
  "process \<Rightarrow> transport \<Rightarrow> string \<Rightarrow> string option \<Rightarrow> string option \<Rightarrow> int option \<Rightarrow>
   int option \<Rightarrow> request list \<times> (py_exception + json)" where
  "youtrack_search_issues p http query fields_arg custom_fields top_arg skip_arg =
     (let fields = or_default ''idReadable,summary,project(shortName)'' fields_arg;
          top = or_default 100 top_arg;
          skip = or_default 0 skip_arg
      in search_issues p http query (Some fields) custom_fields (Some top) (Some skip))"

definition youtrack_get_issue ::
  "process \<Rightarrow> transport \<Rightarrow> string \<Rightarrow> string option \<Rightarrow> string option \<Rightarrow>
   request list \<times> (py_exception + json)" where
  "youtrack_get_issue p http issue_id fields_arg custom_fields =
     (let fields = or_default ''idReadable,summary,description,project(shortName),customFields(projectCustomField(field(name)),value(name,login,fullName,text))'' fields_arg
      in get_issue p http issue_id (Some fields) custom_fields)"

definition youtrack_update_issue ::
  "process \<Rightarrow> transport \<Rightarrow> string \<Rightarrow> (string \<times> json) list \<Rightarrow> string option \<Rightarrow>
   request list \<times> (py_exception + json)" where
  "youtrack_update_issue p http issue_id data fields_arg =
     (let fields = or_default ''idReadable,summary'' fields_arg
      in update_issue p http issue_id data (Some fields))"

definition youtrack_add_comment ::
  "process \<Rightarrow> transport \<Rightarrow> string \<Rightarrow> string \<Rightarrow> string option \<Rightarrow>
   request list \<times> (py_exception + json)" where
  "youtrack_add_comment p http issue_id comment_text fields_arg =
     (let fields = or_default ''id,text,author(login)'' fields_arg
      in add_comment p http issue_id comment_text (Some fields))"

section \<open>Observations used in the statements\<close>

text \<open>The \<open>fields\<close> query parameter of the one request a call sends.\<close>

definition fields_param :: "request list \<times> (py_exception + json) \<Rightarrow> string option" where
  "fields_param res =
     (case fst res of
        [req] \<Rightarrow>
          (case req_params req of
             None \<Rightarrow> None
           | Some ps \<Rightarrow> (case map_of ps ''fields'' of Some (PStr s) \<Rightarrow> Some s | _ \<Rightarrow> None))
      | _ \<Rightarrow> None)"

text \<open>
  Comma defects of a projection string, and a well-formed one: not empty and free of
  the three defects.
\<close>

definition leading_comma :: "string \<Rightarrow> bool" where
  "leading_comma s = (s \<noteq> [] \<and> hd s = CHR '','')"






text \<open>Python's \<open>"error" in result\<close> for a returned value that is a mapping.\<close>

definition is_error :: "json \<Rightarrow> bool" where
  "is_error v =
     (case v of
        JObject kv \<Rightarrow> (case map_of kv ''error'' of None \<Rightarrow> False | Some _ \<Rightarrow> True)
      | _ \<Rightarrow> False)"

text \<open>
  A failure outcome of the HTTP call: the call raises, the status is in the error
  range, or the body of a response other than 204 does not decode.
\<close>

definition failure :: "outcome \<Rightarrow> bool" where
  "failure out =
     (case out of
        Raised e \<Rightarrow> True
      | Responded r \<Rightarrow>
          if 400 \<le> status_code r \<and> status_code r < 600 then True
          else if status_code r = 204 then False
          else isl (json_result r))"

section \<open>Concrete processes and backends\<close>

text \<open>
  A process started with \<open>--read-only\<close> and the URL and token in the environment,
  whose standard output takes every text, and backends that answer every request the
  same way. \<open>demo_dict_str\<close> is Python's \<open>str\<close> on the two mappings used below.
\<close>

definition demo_dict_str :: "(string \<times> json) list \<Rightarrow> string" where
  "demo_dict_str d =
     (if d = [(''summary'', JString ''x'')]
      then ''{'' @ [CHR 0x27] @ ''summary'' @ [CHR 0x27] @ '': '' @ [CHR 0x27] @ ''x''
             @ [CHR 0x27] @ ''}''
      else ''{}'')"

definition demo_process :: process where
  "demo_process =
     startup [''YOUTRACK_URL'' \<mapsto> ''https://yt.example'', ''YOUTRACK_TOKEN'' \<mapsto> ''perm-abc'']
       \<lparr> arg_read_only = True, arg_youtrack_url = None, arg_youtrack_token = None \<rparr>
       (\<lambda>text. None) demo_dict_str"

definition always :: "outcome \<Rightarrow> transport" where
  "always out = (\<lambda>req. out)"

definition reply :: "int \<Rightarrow> py_exception + json \<Rightarrow> outcome" where
  "reply status body =
     Responded \<lparr> status_code = status, http_error_msg = ''HTTP error'', json_result = body \<rparr>"

text \<open>
  A standard output with the encoding \<open>ascii\<close>, as under \<open>PYTHONIOENCODING=ascii\<close>:
  \<open>print\<close> raises \<open>UnicodeEncodeError\<close>, a \<open>ValueError\<close>, for a text with a
  character from 128 on. The argument stands for the text of the error, which names
  the character and its position.
\<close>

fun ascii_only :: "string \<Rightarrow> bool" where
  "ascii_only [] = True"
| "ascii_only (c # s) = (if digit7 c then False else ascii_only s)"

definition ascii_stdout :: console where
  "ascii_stdout text =
     (if ascii_only text then None else Some (OtherException ''UnicodeEncodeError''))"

text \<open>
  The same process with that standard output and a tracker whose host name has an
  \<open>u\<close> with diaeresis (code point 252), and an issue id, a query and a comment with
  an \<open>e\<close> with acute accent (code point 233).
\<close>

definition ascii_process :: process where
  "ascii_process =
     startup [''YOUTRACK_URL'' \<mapsto> ''https://m'' @ [CHR 0xFC] @ ''nchen.example'',
              ''YOUTRACK_TOKEN'' \<mapsto> ''perm-abc'']
       \<lparr> arg_read_only = False, arg_youtrack_url = None, arg_youtrack_token = None \<rparr>
       ascii_stdout demo_dict_str"

definition accented_id :: string where
  "accented_id = ''DEMO-'' @ [CHR 0xE9]"

definition accented_query :: string where
  "accented_query = ''summary: caf'' @ [CHR 0xE9]"

definition accented_comment :: string where
  "accented_comment = ''caf'' @ [CHR 0xE9]"

section \<open>Facts about the adapter and the operations\<close>

lemma make_request_trace:
  "fst (make_request p http meth ep params json_data) =
     [\<lparr> req_method = meth, req_url = YOUTRACK_URL p @ ''/api/'' @ ep,
        req_headers = HEADERS p, req_params = params, req_json = json_data \<rparr>]"
  by (simp add: make_request_def Let_def)

lemma make_request_handled:
  "fst (make_request p http meth ep params json_data) = [req] \<Longrightarrow>
   snd (make_request p http meth ep params json_data) =
     (case try_body http req of
        Inr v \<Rightarrow> Inr v
      | Inl (RequestException e) \<Rightarrow>
          (case stdout p (''Error making request to '' @ req_url req @ '': '' @ e) of
             Some x \<Rightarrow> Inl x
           | None \<Rightarrow> Inr (JObject [(''error'', JString e)]))
      | Inl (OtherException e) \<Rightarrow>
          (case stdout p (''An unexpected error occurred: '' @ e) of
             Some x \<Rightarrow> Inl x
           | None \<Rightarrow> Inr (JObject [(''error'', JString ''An unexpected error occurred'')])))"
  by (auto simp: make_request_def Let_def split: sum.splits py_exception.splits)

lemma make_request_raises_only_from_print:
  assumes "snd (make_request p http meth ep params json_data) = Inl x"
  shows "\<exists>text. stdout p text = Some x"
proof -
  obtain req where r: "fst (make_request p http meth ep params json_data) = [req]"
    by (simp add: make_request_trace)
  from assms show ?thesis
    unfolding make_request_handled [OF r]
    by (auto split: sum.splits py_exception.splits option.splits)
qed

lemma try_body_204:
  "http req = Responded r \<Longrightarrow> status_code r = 204 \<Longrightarrow> try_body http req = Inr (JObject [])"
  by (simp add: try_body_def raise_for_status_def)

lemma search_issues_printed:
  "stdout p (search_issues_line query) = None \<Longrightarrow>
   search_issues p http query fields_arg custom_fields top_arg skip_arg =
     make_request p http ''GET'' ''issues''
       (Some [(''query'', PStr query),
              (''fields'', PStr (if truthy custom_fields
                  then or_default ''idReadable,summary,project(shortName)'' fields_arg
                       @ '','' @ the custom_fields
                  else or_default ''idReadable,summary,project(shortName)'' fields_arg)),
              (''$top'', PInt (or_default 100 top_arg)),
              (''$skip'', PInt (or_default 0 skip_arg))])
       None"
  by (simp add: search_issues_def Let_def)

lemma get_issue_printed:
  "stdout p (get_issue_line issue_id) = None \<Longrightarrow>
   get_issue p http issue_id (Some flds) custom_fields =
     make_request p http ''GET'' (''issues/'' @ issue_id)
       (Some [(''fields'', PStr (if truthy custom_fields then flds @ '','' @ the custom_fields
                                 else flds))])
       None"
  by (simp add: get_issue_def or_default_def Let_def)

lemma update_issue_printed:
  "stdout p (update_issue_line p issue_id payload) = None \<Longrightarrow>
   update_issue p http issue_id payload fields_arg =
     make_request p http ''POST'' (''issues/'' @ issue_id)
       (Some [(''fields'', PStr (or_default ''idReadable,summary'' fields_arg))])
       (Some (JObject payload))"
  by (simp add: update_issue_def Let_def)

lemma add_comment_printed:
  "stdout p (add_comment_line issue_id comment_text) = None \<Longrightarrow>
   add_comment p http issue_id comment_text fields_arg =
     make_request p http ''POST'' (''issues/'' @ issue_id @ ''/comments'')
       (Some [(''fields'', PStr (or_default ''id,text,author(login)'' fields_arg))])
       (Some (JObject [(''text'', JString comment_text)]))"
  by (simp add: add_comment_def Let_def)

lemma operation_print_raises:
  "stdout p (search_issues_line query) = Some x \<Longrightarrow>
     search_issues p http query fields_arg custom_fields top_arg skip_arg = ([], Inl x)"
  "stdout p (get_issue_line issue_id) = Some x \<Longrightarrow>
     get_issue p http issue_id fields_arg custom_fields = ([], Inl x)"
  "stdout p (update_issue_line p issue_id payload) = Some x \<Longrightarrow>
     update_issue p http issue_id payload fields_arg = ([], Inl x)"
  "stdout p (add_comment_line issue_id comment_text) = Some x \<Longrightarrow>
     add_comment p http issue_id comment_text fields_arg = ([], Inl x)"
  by (simp_all add: search_issues_def get_issue_def update_issue_def add_comment_def Let_def)


lemma demo_process_simps:
  "YOUTRACK_URL demo_process = ''https://yt.example''"
  "YOUTRACK_TOKEN demo_process = ''perm-abc''"
  "read_only (app_context demo_process)"
  "stdout demo_process text = None"
  "dict_str demo_process = demo_dict_str"
  by (simp_all add: demo_process_def startup_def parse_arguments_def app_lifespan_def
        environ_get_def lower_def lower_char_def truthy_def Let_def)

lemma ascii_process_simps:
  "YOUTRACK_URL ascii_process = ''https://m'' @ [CHR 0xFC] @ ''nchen.example''"
  "YOUTRACK_TOKEN ascii_process = ''perm-abc''"
  "stdout ascii_process = ascii_stdout"
  "dict_str ascii_process = demo_dict_str"
  by (simp_all add: ascii_process_def startup_def parse_arguments_def environ_get_def
        truthy_def Let_def)

section \<open>The field projection parameter\<close>





lemma fields_param_search:
  "fields_param (search_issues p http query (Some flds) custom_fields top_arg skip_arg) =
     (if stdout p (search_issues_line query) = None
      then Some (if custom_fields = None \<or> custom_fields = Some [] then flds
                 else flds @ '','' @ the custom_fields)
      else None)"
  by (cases custom_fields)
     (auto simp: fields_param_def search_issues_def make_request_def or_default_def
        truthy_def Let_def)




text \<open>
  Outside the valid inputs: an empty \<open>fields\<close> with a \<open>custom_fields\<close> that is
  given starts with the comma.
\<close>

lemma empty_fields_leading_comma:
  "stdout p (search_issues_line query) = None \<Longrightarrow>
   fields_param (search_issues p http query (Some []) (Some ''State'') top_arg skip_arg) =
     Some '',State''
   \<and> leading_comma '',State''"
  by (simp add: fields_param_search leading_comma_def)

section \<open>Exceptions that leave the adapter\<close>

text \<open>
  On a standard output that takes every text the adapter returns a value, and an error
  mapping for every failure outcome.
\<close>

lemma try_body_failure:
  "failure (http req) \<Longrightarrow> \<exists>e. try_body http req = Inl e"
  by (auto simp: failure_def try_body_def raise_for_status_def isl_def
           split: outcome.splits if_splits)

lemma make_request_returns_when_printed:
  assumes quiet: "\<And>text. stdout p text = None"
    and sent: "fst (make_request p http meth ep params json_data) = [req]"
  shows "\<exists>v. snd (make_request p http meth ep params json_data) = Inr v"
    and "failure (http req) \<Longrightarrow>
         \<exists>msg. snd (make_request p http meth ep params json_data) =
                  Inr (JObject [(''error'', JString msg)])"
proof -
  show "\<exists>v. snd (make_request p http meth ep params json_data) = Inr v"
    unfolding make_request_handled [OF sent]
    by (simp add: quiet split: sum.splits py_exception.splits)
next
  assume "failure (http req)"
  then obtain e where "try_body http req = Inl e"
    using try_body_failure by blast
  then show "\<exists>msg. snd (make_request p http meth ep params json_data) =
                  Inr (JObject [(''error'', JString msg)])"
    unfolding make_request_handled [OF sent]
    by (cases e) (simp_all add: quiet)
qed

text \<open>
  Claim C2. The claim is that \<open>_make_request\<close> returns a value for every outcome of the
  HTTP call and lets no exception out. The first handler prints the URL and the error
  before it returns. On a standard output with the encoding \<open>ascii\<close>, with a
  tracker whose host name is not ASCII and a refused connection, that \<open>print\<close> raises
  \<open>UnicodeEncodeError\<close> inside the handler, and the exception leaves \<open>_make_request\<close>
  after the request was made.
\<close>

theorem make_request_handler_print_raises:
  "make_request ascii_process (always (Raised (RequestException ''Connection refused'')))
     ''GET'' ''issues'' None None =
     ([\<lparr> req_method = ''GET'',
         req_url = ''https://m'' @ [CHR 0xFC] @ ''nchen.example/api/issues'',
         req_headers = [(''Authorization'', ''Bearer perm-abc''),
                        (''Accept'', ''application/json''),
                        (''Content-Type'', ''application/json'')],
         req_params = None, req_json = None \<rparr>],
      Inl (OtherException ''UnicodeEncodeError''))"
  by (simp add: make_request_def try_body_def always_def ascii_process_simps ascii_stdout_def
        HEADERS_def Let_def)

section \<open>The read-only flag\<close>

text \<open>
  Claim C3. For every input and for both values of the read-only flag, in the lifespan
  context and in the environment, \<open>update_issue\<close> and \<open>add_comment\<close> do the same:
  neither reads the flag. A process started with \<open>--read-only\<close> has the flag set, and
  with the flag set either operation sends its POST request whenever the line it prints
  first is written.
\<close>

theorem read_only_flag_ignored:
  "update_issue (p\<lparr> app_context := (app_context p)\<lparr> read_only := b \<rparr>,
                    environ := (environ p)(''YOUTRACK_READ_ONLY'' := v) \<rparr>)
        http issue_id payload fields_arg
     = update_issue p http issue_id payload fields_arg
   \<and> add_comment (p\<lparr> app_context := (app_context p)\<lparr> read_only := b \<rparr>,
                    environ := (environ p)(''YOUTRACK_READ_ONLY'' := v) \<rparr>)
        http issue_id comment_text fields_arg
     = add_comment p http issue_id comment_text fields_arg
   \<and> read_only (app_context (startup env (args\<lparr> arg_read_only := True \<rparr>) out str_of_dict))
   \<and> (stdout p (update_issue_line p issue_id payload) = None \<longrightarrow>
        (\<exists>req. fst (update_issue (p\<lparr> app_context := (app_context p)\<lparr> read_only := True \<rparr> \<rparr>)
                      http issue_id payload fields_arg) = [req]
              \<and> req_method req = ''POST'' \<and> req_json req = Some (JObject payload)))
   \<and> (stdout p (add_comment_line issue_id comment_text) = None \<longrightarrow>
        (\<exists>req. fst (add_comment (p\<lparr> app_context := (app_context p)\<lparr> read_only := True \<rparr> \<rparr>)
                      http issue_id comment_text fields_arg) = [req]
              \<and> req_method req = ''POST''
              \<and> req_json req = Some (JObject [(''text'', JString comment_text)])))"
proof (intro conjI)
  show "read_only (app_context (startup env (args\<lparr> arg_read_only := True \<rparr>) out str_of_dict))"
    by (simp add: startup_def parse_arguments_def app_lifespan_def environ_get_def
          lower_def lower_char_def Let_def)
qed (auto simp: update_issue_def add_comment_def update_issue_line_def make_request_def
       HEADERS_def Let_def split: option.splits sum.splits py_exception.splits)

text \<open>The theorem at the process started with \<open>--read-only\<close>: the update of \<open>DEMO-1\<close> is sent.\<close>

theorem read_only_flag_ignored_witness:
  "read_only (app_context demo_process)
   \<and> stdout demo_process (update_issue_line demo_process ''DEMO-1'' [(''summary'', JString ''x'')])
       = None
   \<and> update_issue (demo_process\<lparr> app_context := (app_context demo_process)\<lparr> read_only := False \<rparr>,
                    environ := (environ demo_process)(''YOUTRACK_READ_ONLY'' := None) \<rparr>)
        (always (reply 200 (Inr (JObject [(''idReadable'', JString ''DEMO-1'')]))))
        ''DEMO-1'' [(''summary'', JString ''x'')] None
     = update_issue demo_process
        (always (reply 200 (Inr (JObject [(''idReadable'', JString ''DEMO-1'')]))))
        ''DEMO-1'' [(''summary'', JString ''x'')] None
   \<and> fst (update_issue demo_process
        (always (reply 200 (Inr (JObject [(''idReadable'', JString ''DEMO-1'')]))))
        ''DEMO-1'' [(''summary'', JString ''x'')] None) =
     [\<lparr> req_method = ''POST'', req_url = ''https://yt.example/api/issues/DEMO-1'',
        req_headers = [(''Authorization'', ''Bearer perm-abc''),
                       (''Accept'', ''application/json''),
                       (''Content-Type'', ''application/json'')],
        req_params = Some [(''fields'', PStr ''idReadable,summary'')],
        req_json = Some (JObject [(''summary'', JString ''x'')]) \<rparr>]"
  using read_only_flag_ignored [where p = demo_process and b = False and v = None
      and http = "always (reply 200 (Inr (JObject [(''idReadable'', JString ''DEMO-1'')])))"
      and issue_id = "''DEMO-1''" and payload = "[(''summary'', JString ''x'')]"
      and fields_arg = None]
  by (simp add: demo_process_simps update_issue_def make_request_def or_default_def
        HEADERS_def Let_def)

section \<open>Operations that send no request\<close>

text \<open>
  Claim C4. The claim is that \<open>search_issues\<close> sends a GET request to \<open>issues\<close> for
  every query string. The operation prints the query before it calls
  \<open>_make_request\<close>, outside any \<open>try\<close>. On a standard output with the encoding
  \<open>ascii\<close> and a query with an accented letter the \<open>print\<close> raises
  \<open>UnicodeEncodeError\<close>: the exception leaves \<open>search_issues\<close> and no request is sent.
\<close>

theorem search_issues_print_raises:
  "search_issues ascii_process (always (reply 200 (Inr (JArray []))))
     accented_query None None (Some 5) (Some 0) =
     ([], Inl (OtherException ''UnicodeEncodeError''))"
  by (simp add: search_issues_def search_issues_line_def accented_query_def
        ascii_process_simps ascii_stdout_def Let_def)

text \<open>
  Claim C5. The claim is that \<open>update_issue\<close> sends a POST request to
  \<open>issues/{issue_id}\<close> for every \<open>issue_id\<close> and every \<open>data\<close>, and returns what
  \<open>_make_request\<close> returns. The operation prints the id and the data first, outside
  any \<open>try\<close>. On a standard output with the encoding \<open>ascii\<close> and an id with an
  accented letter the \<open>print\<close> raises \<open>UnicodeEncodeError\<close>: the exception leaves
  \<open>update_issue\<close> and no request is sent.
\<close>

theorem update_issue_print_raises:
  "update_issue ascii_process
     (always (reply 200 (Inr (JObject [(''idReadable'', JString ''DEMO-1'')]))))
     accented_id [(''summary'', JString ''x'')] None =
     ([], Inl (OtherException ''UnicodeEncodeError''))"
  by (simp add: update_issue_def update_issue_line_def accented_id_def
        ascii_process_simps ascii_stdout_def Let_def)

text \<open>
  Claim C6. The claim is that \<open>add_comment\<close> sends a POST request to
  \<open>issues/{issue_id}/comments\<close> for every \<open>issue_id\<close> and every \<open>comment_text\<close>.
  The operation prints the id and the first 50 characters of the text first, outside
  any \<open>try\<close>. On a standard output with the encoding \<open>ascii\<close> and a text with an
  accented letter the \<open>print\<close> raises \<open>UnicodeEncodeError\<close>: the exception leaves
  \<open>add_comment\<close> and no request is sent.
\<close>

theorem add_comment_print_raises:
  "add_comment ascii_process (always (reply 200 (Inr (JObject [(''id'', JString ''4-17'')]))))
     ''DEMO-1'' accented_comment None =
     ([], Inl (OtherException ''UnicodeEncodeError''))"
  by (simp add: add_comment_def add_comment_line_def accented_comment_def
        ascii_process_simps ascii_stdout_def Let_def)

section \<open>Responses\<close>

text \<open>
  Claim C7. For every call whose response has status 204, \<open>_make_request\<close> returns the
  empty mapping, which is neither an error mapping nor null.
\<close>

theorem no_content_gives_empty_mapping:
  "fst (make_request p http meth ep params json_data) = [req]
   \<and> http req = Responded r \<and> status_code r = 204 \<longrightarrow>
     snd (make_request p http meth ep params json_data) = Inr (JObject [])
     \<and> \<not> is_error (JObject []) \<and> JObject [] \<noteq> JNull"
  by (auto simp: make_request_handled try_body_204 is_error_def)

text \<open>The theorem at a 204 response to an update, whose empty body would not decode.\<close>

theorem no_content_gives_empty_mapping_witness:
  "fst (make_request demo_process (always (reply 204 (Inl (OtherException ''Expecting value''))))
          ''POST'' ''issues/DEMO-1'' (Some [(''fields'', PStr ''idReadable,summary'')])
          (Some (JObject [(''summary'', JString ''x'')]))) =
     [\<lparr> req_method = ''POST'', req_url = ''https://yt.example/api/issues/DEMO-1'',
        req_headers = [(''Authorization'', ''Bearer perm-abc''),
                       (''Accept'', ''application/json''),
                       (''Content-Type'', ''application/json'')],
        req_params = Some [(''fields'', PStr ''idReadable,summary'')],
        req_json = Some (JObject [(''summary'', JString ''x'')]) \<rparr>]
   \<and> status_code \<lparr> status_code = 204, http_error_msg = ''HTTP error'',
                     json_result = Inl (OtherException ''Expecting value'') \<rparr> = 204
   \<and> snd (make_request demo_process (always (reply 204 (Inl (OtherException ''Expecting value''))))
          ''POST'' ''issues/DEMO-1'' (Some [(''fields'', PStr ''idReadable,summary'')])
          (Some (JObject [(''summary'', JString ''x'')]))) = Inr (JObject [])"
  using no_content_gives_empty_mapping [where p = demo_process
      and http = "always (reply 204 (Inl (OtherException ''Expecting value'')))"
      and meth = "''POST''" and ep = "''issues/DEMO-1''"
      and params = "Some [(''fields'', PStr ''idReadable,summary'')]"
      and json_data = "Some (JObject [(''summary'', JString ''x'')])"
      and r = "\<lparr> status_code = 204, http_error_msg = ''HTTP error'',
                  json_result = Inl (OtherException ''Expecting value'') \<rparr>"]
  by (simp add: make_request_trace always_def reply_def demo_process_def
        startup_def parse_arguments_def truthy_def environ_get_def HEADERS_def Let_def)

text \<open>
  Claim C8. The claim is that every failure outside \<open>RequestException\<close> gives exactly
  the mapping of \<open>error\<close> to \<open>An unexpected error occurred\<close>, so that two such
  failures give the same result. The second handler prints the detail before it
  returns. On a standard output with the encoding \<open>ascii\<close>, a missing certificate
  bundle under \<open>/home/joe\<close> gives the mapping, and the same failure under a home
  directory with an accented letter gives no mapping: the \<open>print\<close> raises
  \<open>UnicodeEncodeError\<close>, which leaves \<open>_make_request\<close>.
\<close>

theorem unexpected_failure_print_raises:
  "snd (make_request ascii_process
          (always (Raised (OtherException
             ''Could not find a suitable TLS CA certificate bundle, invalid path: /home/joe/ca.pem'')))
          ''GET'' ''issues'' None None) =
     Inr (JObject [(''error'', JString ''An unexpected error occurred'')])
   \<and> snd (make_request ascii_process
            (always (Raised (OtherException
               (''Could not find a suitable TLS CA certificate bundle, invalid path: /home/jos''
                @ [CHR 0xE9] @ ''/ca.pem''))))
            ''GET'' ''issues'' None None) =
     Inl (OtherException ''UnicodeEncodeError'')"
  by (simp add: make_request_def try_body_def always_def ascii_process_simps ascii_stdout_def
        HEADERS_def Let_def)

text \<open>
  Claim C9. The claim is that a response with a success status other than 204 whose
  body does not decode gives a mapping with the key \<open>error\<close> and no exception. When
  \<open>response.json()\<close> raises a \<open>RequestException\<close>, the first handler prints the URL
  and the error before it returns. On a standard output with the encoding \<open>ascii\<close>
  and a tracker whose host name is not ASCII that \<open>print\<close> raises
  \<open>UnicodeEncodeError\<close>, which leaves \<open>_make_request\<close>.
\<close>

theorem undecodable_body_print_raises:
  "snd (make_request ascii_process
          (always (reply 200
             (Inl (RequestException ''Expecting value: line 1 column 1 (char 0)''))))
          ''GET'' ''issues/DEMO-1'' None None) =
     Inl (OtherException ''UnicodeEncodeError'')"
  by (simp add: make_request_def try_body_def raise_for_status_def always_def reply_def
        ascii_process_simps ascii_stdout_def HEADERS_def Let_def)

section \<open>The facade\<close>

text \<open>
  Claim C10. For every tool invocation, each of the four facade functions returns
  exactly what the operation function of the same name returns for the same arguments,
  and sends the same request: nothing is changed at the facade.
\<close>

theorem facade_returns_operation_result:
  "youtrack_search_issues p http query fields_arg custom_fields top_arg skip_arg
     = search_issues p http query fields_arg custom_fields top_arg skip_arg
   \<and> youtrack_get_issue p http issue_id fields_arg custom_fields
     = get_issue p http issue_id fields_arg custom_fields
   \<and> youtrack_update_issue p http issue_id payload fields_arg
     = update_issue p http issue_id payload fields_arg
   \<and> youtrack_add_comment p http issue_id comment_text fields_arg
     = add_comment p http issue_id comment_text fields_arg"
  by (simp add: youtrack_search_issues_def youtrack_get_issue_def youtrack_update_issue_def
        youtrack_add_comment_def search_issues_def get_issue_def update_issue_def
        add_comment_def or_default_def Let_def)

text \<open>The theorem at a comment that is created and at an issue that is not found.\<close>

theorem facade_returns_operation_result_witness:
  "youtrack_add_comment demo_process
      (always (reply 200 (Inr (JObject [(''id'', JString ''4-17'')]))))
      ''DEMO-1'' ''hello'' None
   = add_comment demo_process
      (always (reply 200 (Inr (JObject [(''id'', JString ''4-17'')]))))
      ''DEMO-1'' ''hello'' None
   \<and> snd (youtrack_add_comment demo_process
      (always (reply 200 (Inr (JObject [(''id'', JString ''4-17'')]))))
      ''DEMO-1'' ''hello'' None) = Inr (JObject [(''id'', JString ''4-17'')])
   \<and> snd (youtrack_get_issue demo_process
      (always (reply 404 (Inl (OtherException ''Expecting value''))))
      ''DEMO-404'' None None) = Inr (JObject [(''error'', JString ''HTTP error'')])"
  using facade_returns_operation_result [where p = demo_process
      and http = "always (reply 200 (Inr (JObject [(''id'', JString ''4-17'')])))"
      and issue_id = "''DEMO-1''" and comment_text = "''hello''" and fields_arg = None]
    facade_returns_operation_result [where p = demo_process
      and http = "always (reply 404 (Inl (OtherException ''Expecting value'')))"
      and issue_id = "''DEMO-404''" and custom_fields = None and fields_arg = None]
  by (simp add: add_comment_def get_issue_def make_request_def try_body_def demo_process_simps
        raise_for_status_def always_def reply_def or_default_def truthy_def Let_def)

end
